theory Spec2Isabelle
  imports Complex_Main
begin

section \<open>Values and numpy primitives\<close>

text \<open>
  The program is \<^verbatim>\<open>disk_method.py\<close>: a Dash callback that parses an expression with
  sympy, integrates \<open>\<pi> f(x)\<^sup>2\<close> with \<^verbatim>\<open>scipy.integrate.quad\<close> and samples \<open>f\<close> for three
  Plotly figures.

  Python floats are modelled by \<^typ>\<open>real\<close>: arithmetic is exact, and there is neither
  rounding nor NaN nor an infinite value. A raised exception is the \<open>Inl\<close> branch of a sum
  type; the source defines no exception class of its own, so the type \<open>'e\<close> of exceptions
  is whatever the libraries raise.
\<close>

text \<open>
  What a numeric callable receives and returns: a Python float or a one-dimensional
  numpy array. \<^verbatim>\<open>quad\<close> calls the function with floats, \<^verbatim>\<open>get_plot_data\<close> calls it with
  the array of sample points. A function made by \<^verbatim>\<open>sp.lambdify\<close> can also return a
  value that holds no float: a sympy expression, or an array of sympy expressions. All
  such values are the one value \<open>Symbolic\<close>.
\<close>

datatype ndarray = Scalar real | Array "real list" | Symbolic

type_synonym 'e callable = "ndarray \<Rightarrow> 'e + ndarray"

text \<open>
  \<^verbatim>\<open>v ** 2\<close>, \<^verbatim>\<open>c * v\<close> and \<^verbatim>\<open>-v\<close>: numpy applies them to every element; applied to
  a sympy expression they give a sympy expression.
\<close>

fun square_nd :: "ndarray \<Rightarrow> ndarray" where
  "square_nd (Scalar y) = Scalar (y ^ 2)"
| "square_nd (Array ys) = Array (map (\<lambda>y. y ^ 2) ys)"
| "square_nd Symbolic = Symbolic"

fun scale_nd :: "real \<Rightarrow> ndarray \<Rightarrow> ndarray" where
  "scale_nd c (Scalar y) = Scalar (c * y)"
| "scale_nd c (Array ys) = Array (map (\<lambda>y. c * y) ys)"
| "scale_nd c Symbolic = Symbolic"

fun neg_nd :: "ndarray \<Rightarrow> ndarray" where
  "neg_nd (Scalar y) = Scalar (- y)"
| "neg_nd (Array ys) = Array (map uminus ys)"
| "neg_nd Symbolic = Symbolic"

text \<open>
  \<^verbatim>\<open>np.linspace(start, stop, num)\<close> with the end point included: numpy computes
  \<^verbatim>\<open>arange(0, num) * step + start\<close> with \<^verbatim>\<open>step = (stop - start) / (num - 1)\<close>.
\<close>

definition linspace :: "real \<Rightarrow> real \<Rightarrow> nat \<Rightarrow> real list" where
  "linspace start stop num =
     map (\<lambda>i. real i * ((stop - start) / real (num - 1)) + start) [0..<num]"

text \<open>
  \<^verbatim>\<open>np.outer(u, v)\<close>: row \<open>i\<close>, column \<open>j\<close> holds \<open>u\<^sub>i * v\<^sub>j\<close>. numpy flattens \<open>u\<close> first, so a
  scalar gives a matrix of one row; the products of sympy expressions by floats are
  sympy expressions.
\<close>

datatype matrix = Matrix "real list list" | SymbolicMatrix

fun outer :: "ndarray \<Rightarrow> real list \<Rightarrow> matrix" where
  "outer (Scalar x) v = Matrix [map (\<lambda>y. x * y) v]"
| "outer (Array xs) v = Matrix (map (\<lambda>x. map (\<lambda>y. x * y) v) xs)"
| "outer Symbolic v = SymbolicMatrix"

text \<open>\<^verbatim>\<open>np.repeat(X[:, np.newaxis], n, axis=1)\<close>: row \<open>i\<close> is \<open>n\<close> copies of \<open>X\<^sub>i\<close>.\<close>

definition repeat_columns :: "real list \<Rightarrow> nat \<Rightarrow> real list list" where
  "repeat_columns X n = map (\<lambda>x. replicate n x) X"

section \<open>The numeric core\<close>

text \<open>
  The integrand of line 9, \<^verbatim>\<open>lambda x: np.pi * (func(x)**2)\<close>. \<^verbatim>\<open>quad\<close> passes a float;
  an exception raised by \<^verbatim>\<open>func\<close> leaves the lambda.
\<close>

definition disk_integrand :: "'e callable \<Rightarrow> real \<Rightarrow> 'e + ndarray" where
  "disk_integrand func x =
     (case func (Scalar x) of
        Inl e \<Rightarrow> Inl e
      | Inr y \<Rightarrow> Inr (scale_nd pi (square_nd y)))"

text \<open>
  \<^verbatim>\<open>volume_disk_method(func, a, b)\<close>. \<^verbatim>\<open>scipy.integrate.quad\<close> is not part of the
  repository: it is the parameter \<open>quad\<close>, which takes the integrand and the two bounds
  and either raises or returns the pair (estimate, estimate of the absolute error). The
  source unpacks the pair, drops the second component and returns the first.
\<close>

type_synonym 'e quadrature =
  "(real \<Rightarrow> 'e + ndarray) \<Rightarrow> real \<Rightarrow> real \<Rightarrow> 'e + real \<times> real"

definition volume_disk_method :: "'e quadrature \<Rightarrow> 'e callable \<Rightarrow> real \<Rightarrow> real \<Rightarrow> 'e + real" where
  "volume_disk_method quad func a b =
     (case quad (disk_integrand func) a b of
        Inl e \<Rightarrow> Inl e
      | Inr (volume, _) \<Rightarrow> Inr volume)"

text \<open>
  \<^verbatim>\<open>get_plot_data(func, a, b)\<close>, statement by statement. \<^verbatim>\<open>func\<close> is called three times
  on the array of sample points; the first call that raises ends the function.
\<close>

definition get_plot_data ::
  "'e callable \<Rightarrow> real \<Rightarrow> real \<Rightarrow>
   'e + real list \<times> ndarray \<times> real list list \<times> matrix \<times> matrix" where
  "get_plot_data func a b =
     (let x_vals = linspace a b 100 in
      case func (Array x_vals) of
        Inl e \<Rightarrow> Inl e
      | Inr y_vals \<Rightarrow>
          (let theta = linspace 0 (2 * pi) 100;
               X = linspace a b 100 in
           case func (Array X) of
             Inl e \<Rightarrow> Inl e
           | Inr fX \<Rightarrow>
               (let Y = outer fX (map cos theta) in
                case func (Array X) of
                  Inl e \<Rightarrow> Inl e
                | Inr fX' \<Rightarrow>
                    (let Z = outer fX' (map sin theta);
                         x_surface = repeat_columns X (length theta)
                     in Inr (x_vals, y_vals, x_surface, Y, Z)))))"

section \<open>The callback\<close>

text \<open>
  The libraries \<^verbatim>\<open>update_output\<close> calls, as parameters:
  \<^item> \<open>sympify\<close> is \<^verbatim>\<open>sp.sympify\<close>: a string to an expression of type \<open>'x\<close>, or an exception;
  \<^item> \<open>lambdify\<close> is \<^verbatim>\<open>sp.lambdify(x, func, 'numpy')\<close>: the name of the symbol and the
    expression to a numeric callable;
  \<^item> \<open>integrate_quad\<close> is \<^verbatim>\<open>scipy.integrate.quad\<close>;
  \<^item> \<open>figures\<close> stands for lines 63 to 169, which build the three Plotly figures (traces,
    animation frames, layout and buttons) from the callable and the arrays of
    \<^verbatim>\<open>get_plot_data\<close>; Plotly's objects are opaque values of type \<open>'fig\<close>;
  \<^item> \<open>Figure\<close> is the empty figure \<^verbatim>\<open>go.Figure()\<close>;
  \<^item> \<open>format_4f\<close> is the format specification \<^verbatim>\<open>{volume:.4f}\<close>.
\<close>

record ('e, 'x, 'fig) libraries =
  sympify :: "string \<Rightarrow> 'e + 'x"
  lambdify :: "string \<Rightarrow> 'x \<Rightarrow> 'e + 'e callable"
  integrate_quad :: "'e quadrature"
  figures :: "'e callable \<Rightarrow> real list \<Rightarrow> ndarray \<Rightarrow> real list list \<Rightarrow> matrix
              \<Rightarrow> matrix \<Rightarrow> 'e + 'fig \<times> 'fig \<times> 'fig"
  Figure :: "'fig"
  format_4f :: "real \<Rightarrow> string"

text \<open>
  \<^verbatim>\<open>update_output(n_clicks, func_str, a, b)\<close>. The result is the tuple of the four
  outputs of the callback, or the exception that leaves it: the function has no
  \<^verbatim>\<open>try\<close> statement.
\<close>

definition update_output ::
  "('e, 'x, 'fig) libraries \<Rightarrow> int \<Rightarrow> string \<Rightarrow> real \<Rightarrow> real \<Rightarrow>
   'e + string \<times> 'fig \<times> 'fig \<times> 'fig" where
  "update_output L n_clicks func_str a b =
     (if n_clicks > 0 then
        (case sympify L func_str of
           Inl e \<Rightarrow> Inl e
         | Inr func \<Rightarrow>
        (case lambdify L ''x'' func of
           Inl e \<Rightarrow> Inl e
         | Inr func_numeric \<Rightarrow>
        (case volume_disk_method (integrate_quad L) func_numeric a b of
           Inl e \<Rightarrow> Inl e
         | Inr volume \<Rightarrow>
        (case get_plot_data func_numeric a b of
           Inl e \<Rightarrow> Inl e
         | Inr (x_vals, y_vals, x_surface, Y, Z) \<Rightarrow>
        (case figures L func_numeric x_vals y_vals x_surface Y Z of
           Inl e \<Rightarrow> Inl e
         | Inr (function_fig, solid_fig, solid_2d_fig) \<Rightarrow>
             Inr (''The volume of the solid of revolution is: '' @ format_4f L volume,
                  function_fig, solid_fig, solid_2d_fig))))))
      else Inr ('''', Figure L, Figure L, Figure L))"

section \<open>Callables used in the statements\<close>

text \<open>The pointwise negation of a callable, \<^verbatim>\<open>lambda x: -func(x)\<close>.\<close>

definition negated :: "'e callable \<Rightarrow> 'e callable" where
  "negated func v = (case func v of Inl e \<Rightarrow> Inl e | Inr y \<Rightarrow> Inr (neg_nd y))"

text \<open>
  The callable that applies a real function \<open>f\<close> to a float and to every element of an
  array, as a function built from numpy's elementwise operations does.
\<close>

definition vectorized :: "(real \<Rightarrow> real) \<Rightarrow> 'e callable" where
  "vectorized f v =
     (case v of
        Scalar x \<Rightarrow> Inr (Scalar (f x))
      | Array xs \<Rightarrow> Inr (Array (map f xs))
      | Symbolic \<Rightarrow> Inr Symbolic)"

section \<open>What is assumed of the quadrature routine\<close>

text \<open>
  \<^verbatim>\<open>scipy.integrate.quad\<close> is a library routine, absent from the sources. Four
  statements below hold for the quadrature routines that satisfy a contract, stated
  here as a predicate on the parameter \<open>quad\<close>; each contract is satisfied by the
  routine \<open>two_rule_quad\<close> of the next section (the last one on constant integrands).
\<close>

text \<open>A value that holds no negative number.\<close>

fun nonneg_nd :: "ndarray \<Rightarrow> bool" where
  "nonneg_nd (Scalar y) = (0 \<le> y)"
| "nonneg_nd (Array ys) = list_all (\<lambda>y. 0 \<le> y) ys"
| "nonneg_nd Symbolic = True"

text \<open>
  Modelled from the spec: the integration routine \<^verbatim>\<open>scipy.integrate.quad\<close> is missing.
  The specification has it return the definite integral of the integrand over \<open>[a, b]\<close>;
  of that, only the sign is kept here: over ordered bounds \<open>a \<le> b\<close>, an integrand that is
  nowhere negative has an estimate that is not negative.
\<close>

definition quad_positive :: "'e quadrature \<Rightarrow> bool" where
  "quad_positive quad \<longleftrightarrow>
     (\<forall>g a b v err. a \<le> b \<longrightarrow> (\<forall>x y. g x = Inr y \<longrightarrow> nonneg_nd y) \<longrightarrow>
        quad g a b = Inr (v, err) \<longrightarrow> 0 \<le> v)"

text \<open>
  Modelled from the spec: the integration routine \<^verbatim>\<open>scipy.integrate.quad\<close> is missing.
  The specification says that for \<open>a > b\<close> integration routines return a negative volume:
  with the bounds in decreasing order the routine does what it does for the bounds
  exchanged and negates the estimate (an exception stays the same exception).
\<close>

definition quad_reverses :: "'e quadrature \<Rightarrow> bool" where
  "quad_reverses quad \<longleftrightarrow>
     (\<forall>g a b. b < a \<longrightarrow>
        quad g a b = (case quad g b a of Inl e \<Rightarrow> Inl e | Inr (v, err) \<Rightarrow> Inr (- v, err)))"

text \<open>
  Modelled from the spec: the integration routine \<^verbatim>\<open>scipy.integrate.quad\<close> is missing.
  The specification says that \<open>a = b\<close> gives a volume of exactly 0, with no condition on
  \<open>f\<close>: over an interval of width zero the estimate is 0, whatever the integrand is.
\<close>

definition quad_zero_width :: "'e quadrature \<Rightarrow> bool" where
  "quad_zero_width quad \<longleftrightarrow> (\<forall>g a. \<exists>err. quad g a a = Inr (0, err))"


text \<open>
  The source passes no tolerance to \<^verbatim>\<open>quad\<close>, so the defaults of scipy apply:
  \<^verbatim>\<open>epsabs = epsrel = 1.49e-8\<close>. The routine has reached its goal when the estimate of
  the error is at most \<^verbatim>\<open>max(epsabs, epsrel * abs(result))\<close>; otherwise it has not
  converged (scipy then issues a warning and still returns the pair).
\<close>

definition epsabs :: real where
  "epsabs = 149 / 10 ^ 10"

definition epsrel :: real where
  "epsrel = 149 / 10 ^ 10"

definition quad_converged :: "real \<times> real \<Rightarrow> bool" where
  "quad_converged r =
     (case r of (result, abserr) \<Rightarrow> abserr \<le> max epsabs (epsrel * \<bar>result\<bar>))"

section \<open>Reference instances of the libraries\<close>

text \<open>
  Small executable instances of the library parameters, on which the statements are
  evaluated at concrete inputs. They are not the libraries; each does what the library
  does on the inputs it is used at.
\<close>

datatype py_exception = SympifyError | ZeroDivisionError | TypeError | ValueError

text \<open>
  Expressions: sums of symbols, the fragment \<^verbatim>\<open>name + name + ...\<close> of what
  \<^verbatim>\<open>sp.sympify\<close> reads. A string outside the fragment raises \<^verbatim>\<open>SympifyError\<close>, as
  \<^verbatim>\<open>sp.sympify\<close> does on the empty string and on a sum without its last operand.
\<close>

datatype expr = Symbol string | Add expr expr

datatype token = Name string | Plus

definition is_letter :: "char \<Rightarrow> bool" where
  "is_letter c \<longleftrightarrow> c \<in> set ''abcdefghijklmnopqrstuvwxyzABCDEFGHIJKLMNOPQRSTUVWXYZ''"

definition flush :: "string \<Rightarrow> token list" where
  "flush name = (if name = [] then [] else [Name name])"

fun tokenize :: "string \<Rightarrow> string \<Rightarrow> token list option" where
  "tokenize name [] = Some (flush name)"
| "tokenize name (c # cs) =
     (if is_letter c then tokenize (name @ [c]) cs
      else if c = CHR '' '' then map_option (\<lambda>ts. flush name @ ts) (tokenize [] cs)
      else if c = CHR ''+'' then map_option (\<lambda>ts. flush name @ Plus # ts) (tokenize [] cs)
      else None)"

fun parse_sum :: "token list \<Rightarrow> expr option" where
  "parse_sum [Name n] = Some (Symbol n)"
| "parse_sum (Name n # Plus # ts) = map_option (Add (Symbol n)) (parse_sum ts)"
| "parse_sum _ = None"

definition demo_sympify :: "string \<Rightarrow> py_exception + expr" where
  "demo_sympify s =
     (case tokenize [] s of
        None \<Rightarrow> Inl SympifyError
      | Some ts \<Rightarrow> (case parse_sum ts of None \<Rightarrow> Inl SympifyError | Some ex \<Rightarrow> Inr ex))"

text \<open>
  \<^verbatim>\<open>sp.lambdify\<close> generates a Python function whose body is the printed expression; it
  does not look at the free symbols. In that function the argument is the value passed,
  and every other symbol of the expression is bound to its sympy symbol: the function
  raises nothing, and a sum in which such a symbol occurs is a sympy expression.
\<close>

fun add_nd :: "ndarray \<Rightarrow> ndarray \<Rightarrow> py_exception + ndarray" where
  "add_nd (Scalar x) (Scalar y) = Inr (Scalar (x + y))"
| "add_nd (Scalar x) (Array ys) = Inr (Array (map (\<lambda>y. x + y) ys))"
| "add_nd (Array xs) (Scalar y) = Inr (Array (map (\<lambda>x. x + y) xs))"
| "add_nd (Array xs) (Array ys) =
     (if length xs = length ys then Inr (Array (map2 (+) xs ys)) else Inl ValueError)"
| "add_nd Symbolic y = Inr Symbolic"
| "add_nd (Scalar x) Symbolic = Inr Symbolic"
| "add_nd (Array xs) Symbolic = Inr Symbolic"

fun eval_expr :: "string \<Rightarrow> expr \<Rightarrow> py_exception callable" where
  "eval_expr arg (Symbol s) v = Inr (if s = arg then v else Symbolic)"
| "eval_expr arg (Add l r) v =
     (case eval_expr arg l v of
        Inl e \<Rightarrow> Inl e
      | Inr x \<Rightarrow> (case eval_expr arg r v of Inl e \<Rightarrow> Inl e | Inr y \<Rightarrow> add_nd x y))"

definition demo_lambdify :: "string \<Rightarrow> expr \<Rightarrow> py_exception + py_exception callable" where
  "demo_lambdify arg ex = Inr (eval_expr arg ex)"

text \<open>
  A quadrature routine with the interface of \<^verbatim>\<open>quad\<close>. On ordered bounds it evaluates
  the integrand at three interior points, returns the two-point midpoint estimate and,
  as the estimate of the error, its distance from the one-point midpoint estimate; the
  integrand must return a float, and a value that is not a float raises \<^verbatim>\<open>TypeError\<close>.
  As \<^verbatim>\<open>quad\<close> does, it returns 0 without calling the integrand when the bounds
  coincide, and otherwise puts the bounds in increasing order first and negates the
  estimate when it had to exchange them.
\<close>

definition float_at :: "(real \<Rightarrow> py_exception + ndarray) \<Rightarrow> real \<Rightarrow> py_exception + real" where
  "float_at g x =
     (case g x of
        Inl e \<Rightarrow> Inl e
      | Inr (Scalar y) \<Rightarrow> Inr y
      | Inr (Array ys) \<Rightarrow> Inl TypeError
      | Inr Symbolic \<Rightarrow> Inl TypeError)"

definition two_rule_panel :: "py_exception quadrature" where
  "two_rule_panel g a b =
     (case float_at g ((a + b) / 2) of
        Inl e \<Rightarrow> Inl e
      | Inr m \<Rightarrow>
     (case float_at g ((3 * a + b) / 4) of
        Inl e \<Rightarrow> Inl e
      | Inr l \<Rightarrow>
     (case float_at g ((a + 3 * b) / 4) of
        Inl e \<Rightarrow> Inl e
      | Inr r \<Rightarrow>
          (let coarse = (b - a) * m;
               fine = (b - a) / 2 * (l + r)
           in Inr (fine, \<bar>fine - coarse\<bar>)))))"

definition two_rule_quad :: "py_exception quadrature" where
  "two_rule_quad g a b =
     (if a = b then Inr (0, 0)
      else if b < a then
        (case two_rule_panel g b a of Inl e \<Rightarrow> Inl e | Inr (v, err) \<Rightarrow> Inr (- v, err))
      else two_rule_panel g a b)"

text \<open>Figures as plain data, and a library record made of the instances.\<close>

datatype plot = Blank | Lines "real list" ndarray | Surface "real list list" matrix matrix

definition demo_figures ::
  "py_exception callable \<Rightarrow> real list \<Rightarrow> ndarray \<Rightarrow> real list list \<Rightarrow> matrix
   \<Rightarrow> matrix \<Rightarrow> py_exception + plot \<times> plot \<times> plot" where
  "demo_figures func x_vals y_vals x_surface Y Z =
     Inr (Lines x_vals y_vals, Surface x_surface Y Z, Lines x_vals y_vals)"

definition demo_libraries :: "(py_exception, expr, plot) libraries" where
  "demo_libraries =
     \<lparr>sympify = demo_sympify, lambdify = demo_lambdify, integrate_quad = two_rule_quad,
      figures = demo_figures, Figure = Blank, format_4f = (\<lambda>v. ''#.####'')\<rparr>"

text \<open>
  Three callables that act on every element: the constant radius 1 (a cylinder), the
  radius \<open>x\<close> (a cone) and the radius \<open>1 / x\<close>. In Python \<^verbatim>\<open>1 / x\<close> raises
  \<^verbatim>\<open>ZeroDivisionError\<close> at the float 0; on an array that holds 0 numpy would store an
  infinite value, which \<^typ>\<open>real\<close> has not, so the instance raises there too.
\<close>

definition unit_radius :: "py_exception callable" where
  "unit_radius = vectorized (\<lambda>x. 1)"

definition cone_profile :: "py_exception callable" where
  "cone_profile = vectorized (\<lambda>x. x)"

definition reciprocal :: "py_exception callable" where
  "reciprocal v =
     (case v of
        Scalar x \<Rightarrow> if x = 0 then Inl ZeroDivisionError else Inr (Scalar (1 / x))
      | Array xs \<Rightarrow>
          if 0 \<in> set xs then Inl ZeroDivisionError else Inr (Array (map (\<lambda>x. 1 / x) xs))
      | Symbolic \<Rightarrow> Inr Symbolic)"

text \<open>
  The callable \<^verbatim>\<open>lambda x: 1\<close>, which is what \<^verbatim>\<open>sp.lambdify\<close> makes of the constant
  expression \<^verbatim>\<open>1\<close>: it returns the number 1 for a float and for an array alike.
\<close>

definition constant_one :: "py_exception callable" where
  "constant_one v = Inr (Scalar 1)"

section \<open>Facts about the reference instances\<close>

lemma float_at_nonneg:
  assumes "\<forall>x y. g x = Inr y \<longrightarrow> nonneg_nd y" and "float_at g x = Inr v"
  shows "0 \<le> v"
proof -
  from assms(2) have "g x = Inr (Scalar v)"
    by (auto simp: float_at_def split: sum.splits ndarray.splits)
  with assms(1) have "nonneg_nd (Scalar v)"
    by blast
  then show ?thesis by simp
qed

lemma two_rule_quad_positive: "quad_positive two_rule_quad"
  unfolding quad_positive_def
proof (intro allI impI)
  fix g :: "real \<Rightarrow> py_exception + ndarray" and a b v err :: real
  assume ab: "a \<le> b" and pos: "\<forall>x y. g x = Inr y \<longrightarrow> nonneg_nd y"
    and res: "two_rule_quad g a b = Inr (v, err)"
  show "0 \<le> v"
  proof (cases "a = b")
    case True
    with res show ?thesis
      by (simp add: two_rule_quad_def)
  next
    case False
    with res ab obtain l r where l: "float_at g ((3 * a + b) / 4) = Inr l"
      and r: "float_at g ((a + 3 * b) / 4) = Inr r" and v: "v = (b - a) / 2 * (l + r)"
      by (auto simp: two_rule_quad_def two_rule_panel_def Let_def split: sum.splits)
    from float_at_nonneg [OF pos l] float_at_nonneg [OF pos r] ab show ?thesis
      unfolding v by simp
  qed
qed

lemma two_rule_quad_reverses: "quad_reverses two_rule_quad"
  by (auto simp: quad_reverses_def two_rule_quad_def)

lemma two_rule_quad_zero_width: "quad_zero_width two_rule_quad"
  by (simp add: quad_zero_width_def two_rule_quad_def)

lemma unit_radius_integrand: "disk_integrand unit_radius x = Inr (Scalar pi)"
  by (simp add: disk_integrand_def unit_radius_def vectorized_def)

lemma quad_unit_radius_0_1: "two_rule_quad (disk_integrand unit_radius) 0 1 = Inr (pi, 0)"
  by (simp add: two_rule_quad_def two_rule_panel_def float_at_def unit_radius_integrand)

lemma quad_unit_radius_1_0: "two_rule_quad (disk_integrand unit_radius) 1 0 = Inr (- pi, 0)"
  by (simp add: two_rule_quad_def two_rule_panel_def float_at_def unit_radius_integrand)


lemma reciprocal_integrand:
  "x \<noteq> 0 \<Longrightarrow> disk_integrand reciprocal x = Inr (Scalar (pi * (1 / x) ^ 2))"
  by (simp add: disk_integrand_def reciprocal_def)

lemma reciprocal_integrand_0: "disk_integrand reciprocal 0 = Inl ZeroDivisionError"
  by (simp add: disk_integrand_def reciprocal_def)

lemma quad_reciprocal_0_1:
  "two_rule_quad (disk_integrand reciprocal) 0 1 = Inr (80 * pi / 9, 44 * pi / 9)"
  by (simp add: two_rule_quad_def two_rule_panel_def float_at_def reciprocal_integrand
      power2_eq_square Let_def)

lemma not_converged_reciprocal: "\<not> quad_converged (80 * pi / 9, 44 * pi / 9)"
proof -
  have "epsabs < 44 * pi / 9"
    using pi_ge_two by (simp add: epsabs_def)
  moreover have "epsrel * \<bar>80 * pi / 9\<bar> < 44 * pi / 9"
    using pi_gt_zero by (simp add: epsrel_def)
  ultimately have "max epsabs (epsrel * \<bar>80 * pi / 9\<bar>) < 44 * pi / 9"
    by (simp only: max_less_iff_conj)
  then show ?thesis
    unfolding quad_converged_def prod.case not_le .
qed

lemma sympify_x_plus_y:
  "sympify demo_libraries ''x + y'' = Inr (Add (Symbol ''x'') (Symbol ''y''))"
  by (simp add: demo_libraries_def demo_sympify_def flush_def is_letter_def)

lemma integrand_x_plus_y:
  "disk_integrand (eval_expr ''x'' (Add (Symbol ''x'') (Symbol ''y''))) t = Inr Symbolic"
  by (simp add: disk_integrand_def)

lemma volume_x_plus_y:
  "volume_disk_method two_rule_quad (eval_expr ''x'' (Add (Symbol ''x'') (Symbol ''y''))) 0 1
     = Inl TypeError"
  by (simp add: volume_disk_method_def two_rule_quad_def two_rule_panel_def float_at_def
      integrand_x_plus_y)

lemma length_linspace: "length (linspace a b n) = n"
  by (simp add: linspace_def)

section \<open>The volume as a definite integral\<close>




section \<open>Sign independence\<close>

lemma square_neg_nd: "square_nd (neg_nd y) = square_nd y"
  by (cases y) simp_all

lemma disk_integrand_negated: "disk_integrand (negated func) = disk_integrand func"
  by (rule ext) (simp add: disk_integrand_def negated_def square_neg_nd split: sum.split)

text \<open>
  Claim C4. The volume does not depend on the sign of \<open>f\<close>: whatever the quadrature
  routine is, \<^verbatim>\<open>volume_disk_method\<close> applied to the pointwise negation of a callable
  returns what it returns for the callable itself (the same volume, or the same
  exception), because the integrand handed to \<^verbatim>\<open>quad\<close> squares the value of \<open>f\<close>.
\<close>

theorem volume_sign_independent:
  "volume_disk_method quad (negated func) a b = volume_disk_method quad func a b"
  by (simp add: volume_disk_method_def disk_integrand_negated)

section \<open>The sign of the volume\<close>

lemma nonneg_scale_square: "nonneg_nd (scale_nd pi (square_nd y))"
  by (cases y) (simp_all add: list_all_iff)

lemma nonneg_disk_integrand: "disk_integrand func x = Inr y \<Longrightarrow> nonneg_nd y"
  by (auto simp: disk_integrand_def nonneg_scale_square split: sum.splits)

text \<open>
  Claim C2, as amended. The integrand \<open>\<pi> f(x)\<^sup>2\<close> of line 9 is nowhere negative. Hence
  for bounds \<open>a \<le> b\<close> and a quadrature routine that gives a non-negative integrand over
  ordered bounds a non-negative estimate, a volume that \<^verbatim>\<open>volume_disk_method\<close> returns is
  not negative. Nothing is said for \<open>a > b\<close>: the source neither orders nor rejects the
  bounds.
\<close>

theorem volume_nonneg_ordered:
  assumes "quad_positive quad" and "a \<le> b" and "volume_disk_method quad func a b = Inr v"
  shows "0 \<le> v"
proof -
  from assms(3) obtain err where "quad (disk_integrand func) a b = Inr (v, err)"
    by (auto simp: volume_disk_method_def split: sum.splits)
  with assms(1,2) nonneg_disk_integrand show ?thesis
    unfolding quad_positive_def by blast
qed

text \<open>The theorem at the cylinder of radius 1 over \<open>[0, 1]\<close>: the volume is \<open>\<pi>\<close>.\<close>

theorem volume_nonneg_ordered_witness:
  "quad_positive two_rule_quad \<and> (0::real) \<le> 1 \<and>
   volume_disk_method two_rule_quad unit_radius 0 1 = Inr pi \<and> 0 \<le> pi"
proof -
  have v: "volume_disk_method two_rule_quad unit_radius 0 1 = Inr pi"
    by (simp add: volume_disk_method_def quad_unit_radius_0_1)
  from volume_nonneg_ordered [OF two_rule_quad_positive _ v] two_rule_quad_positive v
  show ?thesis by simp
qed

text \<open>
  The claim as stated, for all bounds, fails at the cylinder of radius 1 with the bounds
  in decreasing order, \<open>a = 1\<close> and \<open>b = 0\<close>: the volume returned is \<open>- \<pi>\<close>.
\<close>

theorem volume_negative_counterexample:
  "volume_disk_method two_rule_quad unit_radius 1 0 = Inr (- pi) \<and> - pi < 0"
  by (simp add: volume_disk_method_def quad_unit_radius_1_0)

section \<open>Coinciding bounds\<close>

text \<open>
  Claim C3. With \<open>a = b\<close> the volume is exactly 0, for every callable: for a quadrature
  routine whose estimate over an interval of width zero is 0,
  \<^verbatim>\<open>volume_disk_method(f, a, a)\<close> returns 0. The source has no case for \<open>a = b\<close>; it hands
  both bounds to \<^verbatim>\<open>quad\<close> unchanged and returns the estimate.
\<close>

theorem volume_zero_width:
  assumes "quad_zero_width quad"
  shows "volume_disk_method quad func a a = Inr 0"
proof -
  from assms obtain err where "quad (disk_integrand func) a a = Inr (0, err)"
    unfolding quad_zero_width_def by blast
  then show ?thesis
    by (simp add: volume_disk_method_def)
qed

text \<open>The theorem at the radius \<open>1 / x\<close> and \<open>a = b = 0\<close>, where the callable would raise.\<close>

theorem volume_zero_width_witness:
  "quad_zero_width two_rule_quad \<and> reciprocal (Scalar 0) = Inl ZeroDivisionError \<and>
   volume_disk_method two_rule_quad reciprocal 0 0 = Inr 0"
proof -
  have f: "reciprocal (Scalar 0) = Inl ZeroDivisionError"
    by (simp add: reciprocal_def)
  from volume_zero_width [OF two_rule_quad_zero_width, of reciprocal 0]
    two_rule_quad_zero_width f
  show ?thesis by simp
qed

section \<open>Bounds in decreasing order\<close>

text \<open>
  Claim C7, as amended. For \<open>a > b\<close> and a quadrature routine that negates its estimate
  when the bounds are exchanged: when \<^verbatim>\<open>volume_disk_method(f, a, b)\<close> returns a volume,
  \<^verbatim>\<open>volume_disk_method(f, b, a)\<close> returns a volume of the same magnitude; when it raises,
  the call with the bounds exchanged raises the same exception. The source itself
  raises no error for \<open>a > b\<close>.
\<close>

theorem volume_swapped_bounds:
  assumes "quad_reverses quad" and "b < a"
  shows "case volume_disk_method quad func a b of
           Inl e \<Rightarrow> volume_disk_method quad func b a = Inl e
         | Inr v \<Rightarrow> \<exists>w. volume_disk_method quad func b a = Inr w \<and> \<bar>v\<bar> = \<bar>w\<bar>"
proof -
  from assms have "quad (disk_integrand func) a b =
      (case quad (disk_integrand func) b a of
         Inl e \<Rightarrow> Inl e | Inr (v, err) \<Rightarrow> Inr (- v, err))"
    unfolding quad_reverses_def by blast
  then show ?thesis
    by (auto simp: volume_disk_method_def split: sum.splits)
qed

theorem volume_swapped_bounds_witness:
  "quad_reverses two_rule_quad \<and> (0::real) < 1 \<and>
   volume_disk_method two_rule_quad unit_radius 1 0 = Inr (- pi) \<and>
   volume_disk_method two_rule_quad unit_radius 0 1 = Inr pi \<and> \<bar>- pi\<bar> = \<bar>pi\<bar>"
proof -
  have v: "volume_disk_method two_rule_quad unit_radius 1 0 = Inr (- pi)"
    by (simp add: volume_disk_method_def quad_unit_radius_1_0)
  have w: "volume_disk_method two_rule_quad unit_radius 0 1 = Inr pi"
    by (simp add: volume_disk_method_def quad_unit_radius_0_1)
  from volume_swapped_bounds [OF two_rule_quad_reverses, of 0 1 unit_radius]
    two_rule_quad_reverses v w
  show ?thesis by simp
qed

text \<open>
  The claim as stated allows two outcomes for \<open>a > b\<close>, a bounds error or a volume. It
  fails for the radius \<open>1 / x\<close> with \<open>a = 1\<close> and \<open>b = -1\<close>: the call ends with the
  \<^verbatim>\<open>ZeroDivisionError\<close> that the callable raises at 0, which is neither.
\<close>

theorem swapped_bounds_counterexample:
  "(- 1::real) < 1 \<and> volume_disk_method two_rule_quad reciprocal 1 (- 1) = Inl ZeroDivisionError"
  by (simp add: volume_disk_method_def two_rule_quad_def two_rule_panel_def float_at_def
      reciprocal_integrand_0)

section \<open>Integration that does not converge\<close>

text \<open>
  Claim C8, as amended. \<^verbatim>\<open>volume_disk_method\<close> makes no test of convergence: whenever
  \<^verbatim>\<open>quad\<close> returns a pair, it returns the estimate, whatever the estimate of the error
  is; and it raises only an exception that \<^verbatim>\<open>quad\<close> raised on the same call.
\<close>

theorem volume_estimate_unchecked:
  "(quad (disk_integrand func) a b = Inr (v, err) \<longrightarrow>
      volume_disk_method quad func a b = Inr v) \<and>
   (volume_disk_method quad func a b = Inl e \<longrightarrow> quad (disk_integrand func) a b = Inl e)"
  by (auto simp: volume_disk_method_def split: sum.splits)

text \<open>
  Both halves at concrete inputs: the cylinder over \<open>[0, 1]\<close>, and the radius \<open>1 / x\<close> over
  \<open>[-1, 1]\<close>, where the integrand raises at the midpoint 0.
\<close>

theorem volume_estimate_unchecked_witness:
  "two_rule_quad (disk_integrand unit_radius) 0 1 = Inr (pi, 0) \<and>
   volume_disk_method two_rule_quad unit_radius 0 1 = Inr pi \<and>
   volume_disk_method two_rule_quad reciprocal (- 1) 1 = Inl ZeroDivisionError \<and>
   two_rule_quad (disk_integrand reciprocal) (- 1) 1 = Inl ZeroDivisionError"
proof -
  have r: "volume_disk_method two_rule_quad reciprocal (- 1) 1 = Inl ZeroDivisionError"
    by (simp add: volume_disk_method_def two_rule_quad_def two_rule_panel_def float_at_def
        reciprocal_integrand_0)
  from volume_estimate_unchecked [of two_rule_quad unit_radius 0 1 pi 0]
    volume_estimate_unchecked [of two_rule_quad reciprocal "- 1" 1 _ _ ZeroDivisionError]
    quad_unit_radius_0_1 r
  show ?thesis by simp
qed

text \<open>
  The claim as stated fails for the radius \<open>1 / x\<close> over \<open>[0, 1]\<close>, whose integrand
  \<open>\<pi> / x\<^sup>2\<close> is singular at 0: the routine returns an estimate whose error estimate is far
  above the tolerance, and \<^verbatim>\<open>volume_disk_method\<close> returns that estimate as the volume
  instead of raising.
\<close>

theorem integration_error_counterexample:
  "two_rule_quad (disk_integrand reciprocal) 0 1 = Inr (80 * pi / 9, 44 * pi / 9) \<and>
   \<not> quad_converged (80 * pi / 9, 44 * pi / 9) \<and>
   volume_disk_method two_rule_quad reciprocal 0 1 = Inr (80 * pi / 9)"
  by (simp add: quad_reciprocal_0_1 not_converged_reciprocal volume_disk_method_def)

section \<open>Expressions the parser rejects\<close>

text \<open>
  Claim C5, as amended. After a click (\<^verbatim>\<open>n_clicks > 0\<close>), an exception that
  \<^verbatim>\<open>sp.sympify\<close> raises on the expression string leaves \<^verbatim>\<open>update_output\<close> as it is: the
  callback does not catch it and returns neither a message nor figures.
\<close>

theorem sympify_error_propagates:
  assumes "0 < n_clicks" and "sympify L func_str = Inl e"
  shows "update_output L n_clicks func_str a b = Inl e"
  using assms by (simp add: update_output_def)

theorem sympify_error_propagates_witness:
  "(0::int) < 1 \<and> sympify demo_libraries ''x + '' = Inl SympifyError \<and>
   update_output demo_libraries 1 ''x + '' 0 1 = Inl SympifyError"
proof -
  have s: "sympify demo_libraries ''x + '' = Inl SympifyError"
    by (simp add: demo_libraries_def demo_sympify_def flush_def is_letter_def)
  from sympify_error_propagates [of 1 demo_libraries "''x + ''" SympifyError 0 1] s
  show ?thesis by simp
qed

text \<open>
  The claim as stated fails at the empty string: after one click the callback ends with
  the parser's exception, unhandled.
\<close>

theorem malformed_expression_counterexample:
  "update_output demo_libraries 1 '''' 0 1 = Inl SympifyError"
  by (simp add: update_output_def demo_libraries_def demo_sympify_def flush_def)

section \<open>Expressions with a second free symbol\<close>

text \<open>
  Claim C6, as amended. The callback makes no test of the free symbols. After a click,
  when \<^verbatim>\<open>sp.sympify\<close> accepts the string and \<^verbatim>\<open>sp.lambdify\<close> returns a callable, the
  callable is handed to the integrator, and an exception raised during the integration
  is the exception that leaves \<^verbatim>\<open>update_output\<close>.
\<close>

theorem callable_applied_unchecked:
  assumes "0 < n_clicks" and "sympify L func_str = Inr ex"
    and "lambdify L ''x'' ex = Inr func_numeric"
    and "volume_disk_method (integrate_quad L) func_numeric a b = Inl e"
  shows "update_output L n_clicks func_str a b = Inl e"
  using assms by (simp add: update_output_def)

text \<open>
  The theorem at \<^verbatim>\<open>"y + x"\<close> over \<open>[1, 3]\<close>: the callable returns a sympy expression, which
  the integrator cannot convert to a float.
\<close>

theorem callable_applied_unchecked_witness:
  "(0::int) < 2 \<and>
   sympify demo_libraries ''y + x'' = Inr (Add (Symbol ''y'') (Symbol ''x'')) \<and>
   lambdify demo_libraries ''x'' (Add (Symbol ''y'') (Symbol ''x'')) =
     Inr (eval_expr ''x'' (Add (Symbol ''y'') (Symbol ''x''))) \<and>
   volume_disk_method (integrate_quad demo_libraries)
     (eval_expr ''x'' (Add (Symbol ''y'') (Symbol ''x''))) 1 3 = Inl TypeError \<and>
   update_output demo_libraries 2 ''y + x'' 1 3 = Inl TypeError"
proof -
  have s: "sympify demo_libraries ''y + x'' = Inr (Add (Symbol ''y'') (Symbol ''x''))"
    by (simp add: demo_libraries_def demo_sympify_def flush_def is_letter_def)
  have l: "lambdify demo_libraries ''x'' (Add (Symbol ''y'') (Symbol ''x'')) =
      Inr (eval_expr ''x'' (Add (Symbol ''y'') (Symbol ''x'')))"
    by (simp add: demo_libraries_def demo_lambdify_def)
  have v: "volume_disk_method (integrate_quad demo_libraries)
      (eval_expr ''x'' (Add (Symbol ''y'') (Symbol ''x''))) 1 3 = Inl TypeError"
    by (simp add: demo_libraries_def volume_disk_method_def two_rule_quad_def
        two_rule_panel_def float_at_def disk_integrand_def)
  have n: "(0::int) < 2" by simp
  from callable_applied_unchecked [OF n s l v] s l v show ?thesis by simp
qed

text \<open>
  The claim as stated fails at \<^verbatim>\<open>"x + y"\<close>: the string is parsed, a callable is made
  from the expression, and the integrator applies it. At the float 1/2 the callable
  returns a sympy expression, and the callback ends with the \<^verbatim>\<open>TypeError\<close> that the
  integrator raises on it.
\<close>

theorem two_symbols_counterexample:
  "sympify demo_libraries ''x + y'' = Inr (Add (Symbol ''x'') (Symbol ''y'')) \<and>
   lambdify demo_libraries ''x'' (Add (Symbol ''x'') (Symbol ''y'')) =
     Inr (eval_expr ''x'' (Add (Symbol ''x'') (Symbol ''y''))) \<and>
   eval_expr ''x'' (Add (Symbol ''x'') (Symbol ''y'')) (Scalar (1 / 2)) = Inr Symbolic \<and>
   update_output demo_libraries 1 ''x + y'' 0 1 = Inl TypeError"
proof -
  have "update_output demo_libraries 1 ''x + y'' 0 1 = Inl TypeError"
    using sympify_x_plus_y volume_x_plus_y
    by (simp add: update_output_def demo_libraries_def demo_lambdify_def)
  then show ?thesis
    using sympify_x_plus_y by (simp add: demo_libraries_def demo_lambdify_def)
qed

section \<open>The samples for plotting\<close>

lemma linspace_100:
  "linspace a b 100 = map (\<lambda>i. a + real i * ((b - a) / 99)) [0..<100]"
  by (simp add: linspace_def add.commute)

lemma zip_map_same: "zip xs (map f xs) = map (\<lambda>x. (x, f x)) xs"
  by (induction xs) simp_all

text \<open>
  Claim C9, as amended. For a callable that applies \<open>f\<close> to every element of the array
  of sample points, \<^verbatim>\<open>get_plot_data\<close> returns 100 abscissas and 100 ordinates; the
  abscissa of index \<open>i\<close> is \<open>a + i (b - a) / 99\<close>, so the abscissas are equally spaced and
  run from \<open>a\<close> (index 0) to \<open>b\<close> (index 99), and the pair of index \<open>i\<close> is
  \<open>(x\<^sub>i, f(x\<^sub>i))\<close>.
\<close>

theorem plot_samples:
  assumes "func (Array (linspace a b 100)) = Inr (Array (map f (linspace a b 100)))"
  shows "\<exists>x_vals y_vals x_surface Y Z.
           get_plot_data func a b = Inr (x_vals, Array y_vals, x_surface, Y, Z) \<and>
           length x_vals = 100 \<and> length y_vals = 100 \<and>
           x_vals ! 0 = a \<and> x_vals ! 99 = b \<and>
           zip x_vals y_vals =
             map (\<lambda>i. (a + real i * ((b - a) / 99), f (a + real i * ((b - a) / 99))))
               [0..<100]"
proof -
  let ?xs = "linspace a b 100"
  have len: "length ?xs = 100"
    by (simp add: linspace_def)
  have first: "?xs ! 0 = a"
    by (simp add: linspace_def)
  have last: "?xs ! 99 = b"
    by (simp add: linspace_def diff_divide_distrib)
  have samples: "zip ?xs (map f ?xs) =
      map (\<lambda>i. (a + real i * ((b - a) / 99), f (a + real i * ((b - a) / 99)))) [0..<100]"
    unfolding zip_map_same by (simp only: linspace_100 map_map comp_def)
  have "get_plot_data func a b =
      Inr (?xs, Array (map f ?xs), repeat_columns ?xs (length (linspace 0 (2 * pi) 100)),
           outer (Array (map f ?xs)) (map cos (linspace 0 (2 * pi) 100)),
           outer (Array (map f ?xs)) (map sin (linspace 0 (2 * pi) 100)))"
    using assms by (simp add: get_plot_data_def Let_def)
  with len first last samples show ?thesis
    by (intro exI conjI) (assumption | simp)+
qed

text \<open>The theorem at the cone \<open>f(x) = x\<close> over \<open>[0, 99]\<close>: the samples are \<open>(i, i)\<close>.\<close>

theorem plot_samples_witness:
  "\<exists>x_vals y_vals x_surface Y Z.
     get_plot_data cone_profile 0 99 = Inr (x_vals, Array y_vals, x_surface, Y, Z) \<and>
     length x_vals = 100 \<and> length y_vals = 100 \<and> x_vals ! 0 = 0 \<and> x_vals ! 99 = 99 \<and>
     zip x_vals y_vals = map (\<lambda>i. (real i, real i)) [0..<100]"
proof -
  have f: "cone_profile (Array (linspace 0 99 100)) =
      Inr (Array (map (\<lambda>x. x) (linspace 0 99 100)))"
    by (simp add: cone_profile_def vectorized_def)
  from plot_samples [of cone_profile 0 99 "\<lambda>x. x", OF f] show ?thesis by simp
qed

text \<open>
  The claim as stated, for every callable, fails at \<^verbatim>\<open>lambda x: 1\<close> over \<open>[0, 1]\<close>: the
  ordinates are the one number 1 and not 100 values, and the two surfaces have one row.
\<close>

theorem scalar_samples_counterexample:
  "get_plot_data constant_one 0 1 =
     Inr (linspace 0 1 100, Scalar 1, repeat_columns (linspace 0 1 100) 100,
          Matrix [map cos (linspace 0 (2 * pi) 100)],
          Matrix [map sin (linspace 0 (2 * pi) 100)])"
  by (simp add: get_plot_data_def constant_one_def Let_def length_linspace)

section \<open>Before the first click\<close>

text \<open>
  Claim C10. With \<^verbatim>\<open>n_clicks = 0\<close> the callback returns the empty string and three empty
  figures, for every expression string and all bounds. The result does not depend on
  the libraries: it is the same when \<open>sympify\<close>, \<open>lambdify\<close>, \<open>integrate_quad\<close> or
  \<open>figures\<close> would raise on these inputs, so neither the parser nor the integrator is
  consulted and no input causes an exception before the first click.
\<close>

theorem update_output_before_click:
  "update_output L 0 func_str a b = Inr ('''', Figure L, Figure L, Figure L)"
  by (simp add: update_output_def)

end
